theory Spec2Isabelle
  imports Complex_Main
begin

section \<open>Python values, exceptions and the client interface\<close>

text \<open>
  The generator script \<^verbatim>\<open>scripts/generate_fake_data.py\<close> builds JSON-like dictionaries,
  sends them to a TEMdb client and reads identifiers back from the records the client
  returns. Python floats are modelled as rationals with exact arithmetic (every finite
  float is a rational); the three non-finite floats are kept as constructors, because
  the Gaussian sampler's result is clamped by comparisons whose outcome on them matters.
\<close>

datatype pyfloat = Fin rat | PosInf | NegInf | NaN

datatype val =
    VNone
  | VBool bool
  | VInt int
  | VFloat pyfloat
  | VStr string
  | VList "val list"
  | VDict "(string \<times> val) list"

text \<open>
  Exceptions. The first two are what the client library raises; the others are the
  built-in exceptions the script itself can raise, and \<open>OtherError\<close> stands for any other
  exception class a client call may raise.
\<close>

datatype exn =
    TEMdbClientError string
  | NotFoundError string
  | KeyError string
  | TypeError
  | ValueError
  | ZeroDivisionError
  | OtherError string

text \<open>One constructor per client operation the script uses, with its arguments.\<close>

datatype call =
    SpecimenCreate val
  | BlockCreate val
  | CuttingSessionCreate val
  | SectionCreate val
  | RoiCreate val
  | ImagingSessionCreate val
  | ImagingSessionAddRois val val
  | AcquisitionCreate val
  | AcquisitionAddTile val val

type_synonym reply = "exn + val"

text \<open>
  Everything the script reads from outside itself. The client library is not part of the
  script: \<open>client\<close> gives the outcome of a call from the calls made so far (with their
  outcomes) and the call itself, so it stands for any deterministic server; a theorem
  about every \<open>env\<close> covers every client. \<open>bits\<close> is the raw entropy behind the \<open>n\<close>-th
  use of the \<^verbatim>\<open>random\<close> module, \<open>gauss_src\<close> the result of the \<open>n\<close>-th draw when it is
  \<^verbatim>\<open>random.gauss(mu, sigma)\<close>, \<open>now\<close> the clock reading (in microseconds) at the \<open>n\<close>-th
  call of \<^verbatim>\<open>datetime.now()\<close>. \<open>isoformat\<close>, \<open>strftime\<close> and \<open>repr\<close> are the runtime's
  renderings of a time and of a value that is neither a string, an integer, a boolean
  nor \<^verbatim>\<open>None\<close>. \<open>notfound_subclass\<close> says whether \<^verbatim>\<open>NotFoundError\<close> is a subclass of
  \<^verbatim>\<open>TEMdbClientError\<close> in the client library.
\<close>

record env =
  client :: "(call \<times> reply) list \<Rightarrow> call \<Rightarrow> reply"
  bits :: "nat \<Rightarrow> nat"
  gauss_src :: "nat \<Rightarrow> pyfloat \<Rightarrow> pyfloat \<Rightarrow> pyfloat"
  now :: "nat \<Rightarrow> int"
  isoformat :: "int \<Rightarrow> string"
  strftime :: "int \<Rightarrow> string"
  repr :: "val \<Rightarrow> string"
  notfound_subclass :: bool

text \<open>The command line arguments of \<^verbatim>\<open>get_parser\<close> (without the URL).\<close>

record args =
  tile_size :: int
  overlap :: rat
  stage_size :: int
  num_blocks :: int
  cutting_sessions_per_block :: int
  sections_per_session :: int
  rois_per_imaging_session :: int

definition default_args :: args where
  "default_args = \<lparr> tile_size = 21512, overlap = 6 / 100, stage_size = 100000,
     num_blocks = 2, cutting_sessions_per_block = 1, sections_per_session = 10,
     rois_per_imaging_session = 5 \<rparr>"

section \<open>The effects of the script as a state and exception monad\<close>

text \<open>
  The state records what the run has done: every client call with its outcome, in
  order; every printed line; how many random draws and clock readings were made.
\<close>

record state =
  calls :: "(call \<times> reply) list"
  out :: "string list"
  draws :: nat
  ticks :: nat

definition init_state :: state where
  "init_state = \<lparr> calls = [], out = [], draws = 0, ticks = 0 \<rparr>"

type_synonym 'a prog = "state \<Rightarrow> (exn + 'a) \<times> state"

definition pret :: "'a \<Rightarrow> 'a prog" where
  "pret x = (\<lambda>s. (Inr x, s))"

definition praise :: "exn \<Rightarrow> 'a prog" where
  "praise e = (\<lambda>s. (Inl e, s))"

definition pbind :: "'a prog \<Rightarrow> ('a \<Rightarrow> 'b prog) \<Rightarrow> 'b prog" where
  "pbind m f = (\<lambda>s. case m s of (Inl e, s') \<Rightarrow> (Inl e, s') | (Inr x, s') \<Rightarrow> f x s')"

definition lift :: "exn + 'a \<Rightarrow> 'a prog" where
  "lift r = (case r of Inl e \<Rightarrow> praise e | Inr x \<Rightarrow> pret x)"

text \<open>A \<^verbatim>\<open>for\<close> loop over a list, threading the local variables the body updates.\<close>

primrec foldM :: "('b \<Rightarrow> 'a \<Rightarrow> 'b prog) \<Rightarrow> 'a list \<Rightarrow> 'b \<Rightarrow> 'b prog" where
  "foldM f [] = (\<lambda>acc. pret acc)"
| "foldM f (x # xs) = (\<lambda>acc. pbind (f acc x) (foldM f xs))"

text \<open>\<^verbatim>\<open>range(n)\<close>: empty when \<open>n \<le> 0\<close>.\<close>

definition py_range :: "int \<Rightarrow> int list" where
  "py_range n = map int [0..<nat n]"

definition py_print :: "string \<Rightarrow> unit prog" where
  "py_print line = (\<lambda>s. (Inr (), s\<lparr>out := out s @ [line]\<rparr>))"

definition datetime_now :: "env \<Rightarrow> int prog" where
  "datetime_now E = (\<lambda>s. (Inr (now E (ticks s)), s\<lparr>ticks := Suc (ticks s)\<rparr>))"

text \<open>An awaited client call: it is recorded with its outcome, which is returned or raised.\<close>

definition call_client :: "env \<Rightarrow> call \<Rightarrow> val prog" where
  "call_client E c = (\<lambda>s. let r = client E (calls s) c in (r, s\<lparr>calls := calls s @ [(c, r)]\<rparr>))"

subsection \<open>The random module\<close>

definition next_draw :: "env \<Rightarrow> nat prog" where
  "next_draw E = (\<lambda>s. (Inr (bits E (draws s)), s\<lparr>draws := Suc (draws s)\<rparr>))"

text \<open>\<^verbatim>\<open>random.random()\<close>: a 53-bit integer divided by \<open>2^53\<close>, so a value in \<open>[0, 1)\<close>.\<close>

definition unit_of :: "nat \<Rightarrow> rat" where
  "unit_of n = of_nat (n mod 2 ^ 53) / 2 ^ 53"

definition random_random :: "env \<Rightarrow> rat prog" where
  "random_random E = pbind (next_draw E) (\<lambda>n. pret (unit_of n))"

text \<open>\<^verbatim>\<open>random.uniform(a, b)\<close> is \<^verbatim>\<open>a + (b - a) * random()\<close>.\<close>

definition uniform :: "env \<Rightarrow> rat \<Rightarrow> rat \<Rightarrow> rat prog" where
  "uniform E a b = pbind (random_random E) (\<lambda>u. pret (a + (b - a) * u))"

text \<open>\<^verbatim>\<open>random.randint(a, b)\<close>: an integer of \<open>[a, b]\<close>; \<^verbatim>\<open>ValueError\<close> on an empty range.\<close>

definition randint :: "env \<Rightarrow> int \<Rightarrow> int \<Rightarrow> int prog" where
  "randint E a b =
     (if b < a then praise ValueError
      else pbind (next_draw E) (\<lambda>n. pret (a + int (n mod nat (b - a + 1)))))"

definition gauss :: "env \<Rightarrow> pyfloat \<Rightarrow> pyfloat \<Rightarrow> pyfloat prog" where
  "gauss E mu sigma = (\<lambda>s. (Inr (gauss_src E (draws s) mu sigma), s\<lparr>draws := Suc (draws s)\<rparr>))"

text \<open>A list comprehension \<^verbatim>\<open>[m for _ in range(n)]\<close> over an effectful expression.\<close>

primrec replicateM :: "nat \<Rightarrow> 'a prog \<Rightarrow> 'a list prog" where
  "replicateM 0 m = pret []"
| "replicateM (Suc n) m = pbind m (\<lambda>x. pbind (replicateM n m) (\<lambda>xs. pret (x # xs)))"

section \<open>Strings, numbers and dictionaries\<close>

definition digit_char :: "nat \<Rightarrow> char" where
  "digit_char d = char_of (48 + d)"

fun str_nat :: "nat \<Rightarrow> string" where
  "str_nat n = (if n < 10 then [digit_char n] else str_nat (n div 10) @ [digit_char (n mod 10)])"

declare str_nat.simps [simp del]

text \<open>\<^verbatim>\<open>str(i)\<close> of an integer, and \<^verbatim>\<open>format(i, "0wd")\<close> (zero padding after the sign).\<close>

definition str_int :: "int \<Rightarrow> string" where
  "str_int i = (if i < 0 then CHR ''-'' # str_nat (nat (- i)) else str_nat (nat i))"

definition zfill :: "nat \<Rightarrow> string \<Rightarrow> string" where
  "zfill w s = replicate (w - length s) CHR ''0'' @ s"

definition fmt_0d :: "nat \<Rightarrow> int \<Rightarrow> string" where
  "fmt_0d w i =
     (if i < 0 then CHR ''-'' # zfill (w - 1) (str_nat (nat (- i))) else zfill w (str_nat (nat i)))"




text \<open>\<^verbatim>\<open>int(x)\<close> on a finite float truncates towards zero.\<close>

definition py_int_of_float :: "rat \<Rightarrow> int" where
  "py_int_of_float q = (if 0 \<le> q then \<lfloor>q\<rfloor> else \<lceil>q\<rceil>)"

text \<open>\<^verbatim>\<open>a // b\<close> on integers: floor division, \<^verbatim>\<open>ZeroDivisionError\<close> when \<open>b = 0\<close>.\<close>

definition py_floordiv :: "int \<Rightarrow> int \<Rightarrow> exn + int" where
  "py_floordiv a b = (if b = 0 then Inl ZeroDivisionError else Inr (a div b))"

definition py_mod :: "int \<Rightarrow> int \<Rightarrow> exn + int" where
  "py_mod a b = (if b = 0 then Inl ZeroDivisionError else Inr (a mod b))"

text \<open>\<^verbatim>\<open>a / b\<close> on floats.\<close>

definition py_truediv :: "rat \<Rightarrow> rat \<Rightarrow> exn + rat" where
  "py_truediv a b = (if b = 0 then Inl ZeroDivisionError else Inr (a / b))"

text \<open>\<^verbatim>\<open>str(v)\<close>, as an f-string renders a value.\<close>

fun py_str :: "env \<Rightarrow> val \<Rightarrow> string" where
  "py_str E (VStr s) = s"
| "py_str E (VInt i) = str_int i"
| "py_str E VNone = ''None''"
| "py_str E (VBool b) = (if b then ''True'' else ''False'')"
| "py_str E v = repr E v"

text \<open>\<^verbatim>\<open>v[k]\<close> with a string key: only a dictionary holding the key has a value there.\<close>

fun getitem :: "val \<Rightarrow> string \<Rightarrow> exn + val" where
  "getitem (VDict kvs) k = (case map_of kvs k of None \<Rightarrow> Inl (KeyError k) | Some v \<Rightarrow> Inr v)"
| "getitem v k = Inl TypeError"





subsection \<open>Comparing and clamping numbers\<close>

text \<open>
  \<^verbatim>\<open>min(a, b)\<close> keeps \<open>a\<close> unless \<^verbatim>\<open>b < a\<close>, and \<^verbatim>\<open>max(a, b)\<close> keeps \<open>a\<close> unless
  \<^verbatim>\<open>b > a\<close>; a comparison with NaN is false.
\<close>

datatype num = NInt int | NFloat pyfloat

fun float_lt :: "pyfloat \<Rightarrow> pyfloat \<Rightarrow> bool" where
  "float_lt NaN y = False"
| "float_lt x NaN = False"
| "float_lt (Fin a) (Fin b) = (a < b)"
| "float_lt NegInf y = (y \<noteq> NegInf)"
| "float_lt x PosInf = (x \<noteq> PosInf)"
| "float_lt x y = False"

fun float_of_num :: "num \<Rightarrow> pyfloat" where
  "float_of_num (NInt i) = Fin (of_int i)"
| "float_of_num (NFloat x) = x"

fun num_lt :: "num \<Rightarrow> num \<Rightarrow> bool" where
  "num_lt (NInt a) (NInt b) = (a < b)"
| "num_lt x y = float_lt (float_of_num x) (float_of_num y)"

definition num_le :: "num \<Rightarrow> num \<Rightarrow> bool" where
  "num_le x y = (num_lt x y \<or> (float_of_num x = float_of_num y \<and> float_of_num x \<noteq> NaN))"

definition py_min :: "num \<Rightarrow> num \<Rightarrow> num" where
  "py_min a b = (if num_lt b a then b else a)"

definition py_max :: "num \<Rightarrow> num \<Rightarrow> num" where
  "py_max a b = (if num_lt a b then b else a)"

fun val_of_num :: "num \<Rightarrow> val" where
  "val_of_num (NInt i) = VInt i"
| "val_of_num (NFloat x) = VFloat x"

section \<open>The generator\<close>

subsection \<open>Geometry and metrics\<close>


definition calculate_stage_position :: "env \<Rightarrow> int \<Rightarrow> int \<Rightarrow> int \<Rightarrow> rat \<Rightarrow> val prog" where
  "calculate_stage_position E row col tile_sz ovl =
     (let effective_tile_size = of_int tile_sz * (1 - ovl);
          x = of_int col * effective_tile_size;
          y = of_int row * effective_tile_size
      in pbind (uniform E (- of_int tile_sz * (1 / 100)) (of_int tile_sz * (1 / 100))) (\<lambda>jitter_x.
         pbind (uniform E (- of_int tile_sz * (1 / 100)) (of_int tile_sz * (1 / 100))) (\<lambda>jitter_y.
         pret (VDict [(''x'', VFloat (Fin (x + jitter_x))), (''y'', VFloat (Fin (y + jitter_y)))]))))"

definition generate_focus_score :: "env \<Rightarrow> pyfloat \<Rightarrow> pyfloat \<Rightarrow> num prog" where
  "generate_focus_score E base_score variation =
     pbind (gauss E base_score variation) (\<lambda>g.
     pret (py_max (NInt 0) (py_min (NInt 24) (NFloat g))))"

definition uniform_val :: "env \<Rightarrow> rat \<Rightarrow> rat \<Rightarrow> val prog" where
  "uniform_val E a b = pbind (uniform E a b) (\<lambda>x. pret (VFloat (Fin x)))"

definition generate_matcher_data :: "env \<Rightarrow> int \<Rightarrow> int \<Rightarrow> val prog" where
  "generate_matcher_data E row col =
     pbind (uniform_val E (- 5) 5) (\<lambda>dX.
     pbind (uniform_val E (- 5) 5) (\<lambda>dY.
     pbind (uniform_val E 0 2) (\<lambda>dXsd.
     pbind (uniform_val E 0 2) (\<lambda>dYsd.
     pbind (uniform_val E 0 10) (\<lambda>distance.
     pbind (uniform_val E (- (1 / 10)) (1 / 10)) (\<lambda>rotation.
     pbind (uniform_val E (1 / 2) 1) (\<lambda>match_quality.
     pbind (replicateM 4 (uniform_val E 0 100)) (\<lambda>pX.
     pbind (replicateM 4 (uniform_val E 0 100)) (\<lambda>pY.
     pbind (replicateM 4 (uniform_val E 0 100)) (\<lambda>qX.
     pbind (replicateM 4 (uniform_val E 0 100)) (\<lambda>qY.
     pret (VDict
       [(''row'', VInt row), (''col'', VInt col),
        (''dX'', dX), (''dY'', dY), (''dXsd'', dXsd), (''dYsd'', dYsd),
        (''distance'', distance), (''rotation'', rotation),
        (''match_quality'', match_quality),
        (''position'', VInt (row * 10 + col)),
        (''pX'', VList pX), (''pY'', VList pY),
        (''qX'', VList qX), (''qY'', VList qY)]))))))))))))"

subsection \<open>One client call per entity\<close>

text \<open>
  Each \<^verbatim>\<open>create_*\<close> function builds a dictionary (\<^verbatim>\<open>specimen_data\<close>, \<^verbatim>\<open>block_data\<close>, ...),
  sends it, prints a field of the record returned and returns that record. The
  dictionaries come first, as functions of the values the code puts in them.
\<close>

definition specimen_data :: "env \<Rightarrow> int \<Rightarrow> int \<Rightarrow> int \<Rightarrow> val" where
  "specimen_data E r1 r2 t = VDict
     [(''specimen_id'', VStr (''SPEC'' @ str_int r1)),
      (''description'', VStr (''Test specimen '' @ str_int r2)),
      (''created_at'', VStr (isoformat E t))]"

definition create_specimen :: "env \<Rightarrow> val prog" where
  "create_specimen E =
     pbind (randint E 1000 9999) (\<lambda>r1.
     pbind (randint E 1 100) (\<lambda>r2.
     pbind (datetime_now E) (\<lambda>t.
     pbind (call_client E (SpecimenCreate (specimen_data E r1 r2 t))) (\<lambda>specimen.
     pbind (lift (getitem specimen ''specimen_id'')) (\<lambda>sid.
     pbind (py_print (''Created specimen: '' @ py_str E sid)) (\<lambda>_.
     pret specimen))))))"

definition block_data :: "env \<Rightarrow> val \<Rightarrow> int \<Rightarrow> rat \<Rightarrow> val" where
  "block_data E sid i resolution = VDict
     [(''block_id'', VStr (''BLK_'' @ py_str E sid @ ''_'' @ fmt_0d 3 (i + 1))),
      (''specimen_id'', sid),
      (''microCT_info'', VDict [(''resolution'', VFloat (Fin resolution))])]"

text \<open>The body of the loop of \<^verbatim>\<open>create_blocks\<close>; \<open>blocks\<close> is the list it appends to.\<close>

definition create_blocks_step :: "env \<Rightarrow> val \<Rightarrow> val list \<Rightarrow> int \<Rightarrow> val list prog" where
  "create_blocks_step E specimen blocks i =
     pbind (lift (getitem specimen ''specimen_id'')) (\<lambda>sid.
     pbind (uniform E (1 / 2) 2) (\<lambda>resolution.
     pbind (call_client E (BlockCreate (block_data E sid i resolution))) (\<lambda>block.
     pbind (lift (getitem block ''block_id'')) (\<lambda>bid.
     pbind (py_print (''Created block: '' @ py_str E bid)) (\<lambda>_.
     pret (blocks @ [block]))))))"


text \<open>
  \<^verbatim>\<open>timedelta(days=n)\<close> is \<open>n\<close> times 86400000000 microseconds (the overflow of a date
  beyond the year 9999 is not modelled).
\<close>

definition cutting_session_data :: "env \<Rightarrow> val \<Rightarrow> int \<Rightarrow> int \<Rightarrow> int \<Rightarrow> string \<Rightarrow> val" where
  "cutting_session_data E bid session_number t operator media_id = VDict
     [(''cutting_session_id'', VStr (''CUT'' @ py_str E bid @ str_int session_number)),
      (''block_id'', bid),
      (''start_time'', VStr (isoformat E (t + session_number * 86400000000))),
      (''operator'', VStr (''Operator '' @ str_int operator)),
      (''sectioning_device'', VStr ''Ultra Microtome 3000''),
      (''media_type'', VStr ''tape''),
      (''media_id'', VStr media_id)]"

definition create_cutting_session :: "env \<Rightarrow> val \<Rightarrow> int \<Rightarrow> (val \<times> string) prog" where
  "create_cutting_session E block session_number =
     pbind (lift (getitem block ''block_id'')) (\<lambda>bid.
     let media_id = ''TAPE'' @ py_str E bid @ str_int session_number in
     pbind (datetime_now E) (\<lambda>t.
     pbind (randint E 1 5) (\<lambda>operator.
     pbind (call_client E (CuttingSessionCreate
              (cutting_session_data E bid session_number t operator media_id))) (\<lambda>cutting_session.
     pbind (lift (getitem cutting_session ''cutting_session_id'')) (\<lambda>cid.
     pbind (py_print (''Created cutting session: '' @ py_str E cid)) (\<lambda>_.
     pret (cutting_session, media_id)))))))"

definition section_data :: "env \<Rightarrow> val \<Rightarrow> int \<Rightarrow> string \<Rightarrow> val" where
  "section_data E cid section_number media_id = VDict
     [(''section_id'', VStr (''SEC'' @ py_str E cid @ fmt_0d 3 section_number)),
      (''section_number'', VInt section_number),
      (''cutting_session_id'', cid),
      (''media_type'', VStr ''tape''),
      (''media_id'', VStr media_id),
      (''relative_position'', VInt section_number)]"

definition create_section :: "env \<Rightarrow> val \<Rightarrow> int \<Rightarrow> string \<Rightarrow> val prog" where
  "create_section E cutting_session section_number media_id =
     pbind (lift (getitem cutting_session ''cutting_session_id'')) (\<lambda>cid.
     pbind (call_client E (SectionCreate (section_data E cid section_number media_id))) (\<lambda>section.
     pbind (lift (getitem section ''section_id'')) (\<lambda>secid.
     pbind (py_print (''Created section: '' @ py_str E secid)) (\<lambda>_.
     pret section))))"

definition roi_data :: "val \<Rightarrow> val \<Rightarrow> val \<Rightarrow> val \<Rightarrow> val \<Rightarrow> val \<Rightarrow> val" where
  "roi_data roi_id section_number wh centroid specimen_oid block_oid = VDict
     [(''roi_id'', roi_id),
      (''section_number'', section_number),
      (''aperture_width_height'', wh),
      (''aperture_centroid'', centroid),
      (''specimen_id'', specimen_oid),
      (''block_id'', block_oid)]"

definition create_roi :: "env \<Rightarrow> val \<Rightarrow> val \<Rightarrow> val \<Rightarrow> val \<Rightarrow> val \<Rightarrow> val prog" where
  "create_roi E section roi_id jittered_roi block specimen =
     pbind (lift (getitem section ''section_number'')) (\<lambda>section_number.
     pbind (lift (getitem jittered_roi ''aperture_width_height'')) (\<lambda>wh.
     pbind (lift (getitem jittered_roi ''aperture_centroid'')) (\<lambda>centroid.
     pbind (lift (getitem specimen ''_id'')) (\<lambda>specimen_oid.
     pbind (lift (getitem block ''_id'')) (\<lambda>block_oid.
     pbind (call_client E (RoiCreate
              (roi_data roi_id section_number wh centroid specimen_oid block_oid))) (\<lambda>roi.
     pbind (lift (getitem roi ''roi_id'')) (\<lambda>rid.
     pbind (lift (getitem section ''section_id'')) (\<lambda>secid.
     pbind (py_print (''Created ROI: '' @ py_str E rid @ '' for section '' @ py_str E secid)) (\<lambda>_.
     pret roi)))))))))"

text \<open>One element of \<^verbatim>\<open>random.choices("0123456789", k=6)\<close>.\<close>

definition random_digit :: "env \<Rightarrow> char prog" where
  "random_digit E = pbind (random_random E) (\<lambda>u. pret (digit_char (nat \<lfloor>u * 10\<rfloor>)))"

definition imaging_session_data :: "env \<Rightarrow> string \<Rightarrow> val \<Rightarrow> val \<Rightarrow> string \<Rightarrow> int \<Rightarrow> val" where
  "imaging_session_data E session_id sid bid media_id t = VDict
     [(''session_id'', VStr session_id),
      (''specimen_id'', sid),
      (''block_id'', bid),
      (''media_type'', VStr ''tape''),
      (''media_id'', VStr media_id),
      (''start_time'', VStr (isoformat E t))]"

definition create_imaging_session :: "env \<Rightarrow> val \<Rightarrow> val \<Rightarrow> string \<Rightarrow> int \<Rightarrow> val prog" where
  "create_imaging_session E specimen block media_id session_number =
     pbind (datetime_now E) (\<lambda>t1.
     let timestamp = strftime E t1 in
     pbind (replicateM 6 (random_digit E)) (\<lambda>random_id.
     pbind (lift (getitem specimen ''specimen_id'')) (\<lambda>sid.
     let session_id = ''IMS_'' @ py_str E sid @ ''_'' @ fmt_0d 3 session_number @ ''_''
                        @ timestamp @ ''_'' @ random_id in
     pbind (py_print (''Creating imaging session: '' @ session_id)) (\<lambda>_.
     pbind (lift (getitem block ''block_id'')) (\<lambda>bid.
     pbind (datetime_now E) (\<lambda>t2.
     pbind (call_client E (ImagingSessionCreate
              (imaging_session_data E session_id sid bid media_id t2))) (\<lambda>imaging_session.
     pbind (lift (getitem imaging_session ''session_id'')) (\<lambda>created_id.
     pbind (py_print (''Created imaging session: '' @ py_str E created_id)) (\<lambda>_.
     pret imaging_session)))))))))"

definition acquisition_data :: "env \<Rightarrow> val \<Rightarrow> val \<Rightarrow> args \<Rightarrow> int \<Rightarrow> val" where
  "acquisition_data E sid rid a t = VDict
     [(''acquisition_id'', VStr (''ACQ'' @ py_str E sid @ py_str E rid)),
      (''roi_id'', rid),
      (''imaging_session_id'', sid),
      (''montage_id'', VStr (''MONTAGE'' @ py_str E sid @ py_str E rid)),
      (''hardware_settings'', VDict
         [(''scope_id'', VStr ''T1''), (''camera_model'', VStr ''MX1276''),
          (''camera_serial'', VStr ''1234''), (''bit_depth'', VInt 10),
          (''media_type'', VStr ''tape'')]),
      (''acquisition_settings'', VDict
         [(''magnification'', VInt 2000), (''spot_size'', VInt 5),
          (''exposure_time'', VInt 120),
          (''tile_size'', VList [VInt (tile_size a), VInt (tile_size a)]),
          (''tile_overlap'', VFloat (Fin (overlap a)))]),
      (''calibration_info'', VDict
         [(''pixel_size'', VFloat (Fin 4)), (''stig_angle'', VInt 0),
          (''lens_model'', VNone)]),
      (''status'', VStr ''planned''),
      (''tilt_angle'', VInt 0),
      (''lens_correction'', VBool True),
      (''start_time'', VStr (isoformat E t))]"

definition create_acquisition :: "env \<Rightarrow> val \<Rightarrow> val \<Rightarrow> args \<Rightarrow> val prog" where
  "create_acquisition E imaging_session roi a =
     pbind (lift (getitem imaging_session ''session_id'')) (\<lambda>sid.
     pbind (lift (getitem roi ''roi_id'')) (\<lambda>rid.
     pbind (datetime_now E) (\<lambda>t.
     pbind (call_client E (AcquisitionCreate (acquisition_data E sid rid a t))) (\<lambda>acquisition.
     pbind (lift (getitem acquisition ''acquisition_id'')) (\<lambda>aid.
     pbind (py_print (''Created acquisition: '' @ py_str E aid)) (\<lambda>_.
     pret acquisition))))))"

subsection \<open>Tiles\<close>

text \<open>\<^verbatim>\<open>args.stage_size / (args.tile_size * (1 - args.overlap))\<close>.\<close>

definition stage_ratio :: "args \<Rightarrow> exn + rat" where
  "stage_ratio a = py_truediv (of_int (stage_size a)) (of_int (tile_size a) * (1 - overlap a))"

definition tiles_per_side :: "args \<Rightarrow> exn + int" where
  "tiles_per_side a = (case stage_ratio a of Inl e \<Rightarrow> Inl e | Inr q \<Rightarrow> Inr (py_int_of_float q))"

text \<open>
  \<^verbatim>\<open>tile_data\<close>, from the values the code computes or draws for it: \<open>stats\<close> are the
  minimum, maximum and mean pixel values, \<open>ms\<close> the four matcher records.
\<close>

definition tile_data ::
  "env \<Rightarrow> val \<Rightarrow> string \<Rightarrow> int \<Rightarrow> int \<Rightarrow> int \<Rightarrow> val \<Rightarrow> num \<Rightarrow> int \<times> int \<times> int \<Rightarrow> rat \<Rightarrow>
     val list \<Rightarrow> val" where
  "tile_data E aid media_id k row col stage_position focus_score stats std_value ms =
     (case stats of (min_value, max_value, mean_value) \<Rightarrow> VDict
       [(''tile_id'', VStr (''TILE'' @ py_str E aid @ fmt_0d 5 (k + 1))),
        (''acquisition_id'', aid),
        (''stage_position'', stage_position),
        (''raster_position'', VDict [(''row'', VInt row), (''col'', VInt col)]),
        (''focus_score'', val_of_num focus_score),
        (''min_value'', VInt min_value),
        (''max_value'', VInt max_value),
        (''mean_value'', VInt mean_value),
        (''std_value'', VFloat (Fin std_value)),
        (''image_path'', VStr (''/path/to/images/'' @ media_id @ ''/'' @ py_str E aid @ ''/''
                                 @ fmt_0d 5 (k + 1) @ ''.tif'')),
        (''matcher'', VList ms),
        (''raster_index'', VInt (k + 1))])"

text \<open>The body of the loop of \<^verbatim>\<open>create_tiles\<close>; \<open>tiles\<close> is the list it appends to.\<close>

definition create_tiles_step ::
  "env \<Rightarrow> val \<Rightarrow> string \<Rightarrow> args \<Rightarrow> rat \<Rightarrow> int \<Rightarrow> val list \<Rightarrow> int \<Rightarrow> val list prog" where
  "create_tiles_step E acquisition media_id a base_focus_score tps tiles k =
     pbind (lift (py_floordiv k tps)) (\<lambda>row.
     pbind (lift (py_mod k tps)) (\<lambda>col.
     pbind (generate_focus_score E (Fin base_focus_score) (Fin (1 / 2))) (\<lambda>focus_score.
     pbind (calculate_stage_position E row col (tile_size a) (overlap a)) (\<lambda>stage_position.
     pbind (lift (getitem acquisition ''acquisition_id'')) (\<lambda>aid.
     pbind (randint E 0 20) (\<lambda>min_value.
     pbind (randint E 200 255) (\<lambda>max_value.
     pbind (randint E 100 200) (\<lambda>mean_value.
     pbind (uniform E 10 40) (\<lambda>std_value.
     pbind (generate_matcher_data E row col) (\<lambda>m1.
     pbind (generate_matcher_data E row (col + 1)) (\<lambda>m2.
     pbind (generate_matcher_data E (row + 1) col) (\<lambda>m3.
     pbind (generate_matcher_data E (row + 1) (col + 1)) (\<lambda>m4.
     pbind (call_client E (AcquisitionAddTile aid
              (tile_data E aid media_id k row col stage_position focus_score
                 (min_value, max_value, mean_value) std_value [m1, m2, m3, m4]))) (\<lambda>created_tile.
     pbind (lift (getitem created_tile ''tile_id'')) (\<lambda>tid.
     pbind (py_print (''Created tile: '' @ py_str E tid)) (\<lambda>_.
     pret (tiles @ [created_tile])))))))))))))))))"

definition create_tiles :: "env \<Rightarrow> val \<Rightarrow> string \<Rightarrow> args \<Rightarrow> val list prog" where
  "create_tiles E acquisition media_id a =
     pbind (uniform E (41 / 2) (43 / 2)) (\<lambda>base_focus_score.
     pbind (lift (tiles_per_side a)) (\<lambda>tps.
     let total_tiles = tps * tps in
     foldM (create_tiles_step E acquisition media_id a base_focus_score tps) (py_range total_tiles) []))"

subsection \<open>The hierarchy walk\<close>















subsection \<open>A client for concrete runs\<close>

text \<open>
  The spec's description of the client: a create call returns the stored record, that
  is the record sent with a server-assigned \<^verbatim>\<open>_id\<close> added. \<open>echo_client\<close> does that for
  every call, numbering the records; \<open>failing_client n e\<close> does it too but raises \<open>e\<close> at
  the call number \<open>n\<close> (counted from 0).
\<close>

fun call_record :: "call \<Rightarrow> val" where
  "call_record (SpecimenCreate d) = d"
| "call_record (BlockCreate d) = d"
| "call_record (CuttingSessionCreate d) = d"
| "call_record (SectionCreate d) = d"
| "call_record (RoiCreate d) = d"
| "call_record (ImagingSessionCreate d) = d"
| "call_record (ImagingSessionAddRois sid rid) = VDict [(''session_id'', sid)]"
| "call_record (AcquisitionCreate d) = d"
| "call_record (AcquisitionAddTile aid d) = d"

fun with_id :: "nat \<Rightarrow> val \<Rightarrow> val" where
  "with_id n (VDict kvs) = VDict (kvs @ [(''_id'', VInt (int n))])"
| "with_id n v = v"

definition echo_client :: "(call \<times> reply) list \<Rightarrow> call \<Rightarrow> reply" where
  "echo_client history c = Inr (with_id (length history) (call_record c))"


text \<open>A fixed environment: the given client and entropy, everything else constant.\<close>

definition test_env :: "((call \<times> reply) list \<Rightarrow> call \<Rightarrow> reply) \<Rightarrow> (nat \<Rightarrow> nat) \<Rightarrow> env" where
  "test_env c b = \<lparr> client = c, bits = b, gauss_src = (\<lambda>n mu sigma. mu), now = (\<lambda>n. int n),
     isoformat = (\<lambda>t. str_int t), strftime = (\<lambda>t. str_int t), repr = (\<lambda>v. ''?''),
     notfound_subclass = True \<rparr>"

text \<open>The default arguments with a geometry of two tiles per side.\<close>

definition small_args :: args where
  "small_args = default_args\<lparr>tile_size := 10, overlap := 1 / 2, stage_size := 10\<rparr>"

section \<open>Observing a run\<close>





text \<open>The calls made between two states of one run.\<close>

definition new_calls :: "state \<Rightarrow> state \<Rightarrow> (call \<times> reply) list" where
  "new_calls s s' = drop (length (calls s)) (calls s')"

fun replied :: "reply \<Rightarrow> bool" where
  "replied (Inr v) = True"
| "replied (Inl e) = False"

definition all_replied :: "(call \<times> reply) list \<Rightarrow> bool" where
  "all_replied tr = list_all (\<lambda>x. replied (snd x)) tr"

text \<open>The two exception classes \<^verbatim>\<open>generate_data\<close> catches.\<close>

fun client_error :: "exn \<Rightarrow> bool" where
  "client_error (TEMdbClientError msg) = True"
| "client_error (NotFoundError msg) = True"
| "client_error e = False"

text \<open>An integer field of a record, when it is there.\<close>

definition int_field :: "val \<Rightarrow> string \<Rightarrow> int option" where
  "int_field v k = (case getitem v k of Inr (VInt i) \<Rightarrow> Some i | _ \<Rightarrow> None)"

definition rat_item :: "val \<Rightarrow> rat option" where
  "rat_item v = (case v of VFloat (Fin x) \<Rightarrow> Some x | _ \<Rightarrow> None)"

subsection \<open>Tiles\<close>

text \<open>
  Of an \<^verbatim>\<open>add_tile\<close> call: the tile's \<^verbatim>\<open>raster_position\<close> (row, column), its
  \<^verbatim>\<open>raster_index\<close>, and the (row, col) fields of its matcher records, in order.
\<close>

fun tile_record :: "call \<Rightarrow> val" where
  "tile_record (AcquisitionAddTile aid d) = d"
| "tile_record c = VNone"

definition tile_position :: "call \<Rightarrow> int option \<times> int option" where
  "tile_position c =
     (case getitem (tile_record c) ''raster_position'' of
        Inr rp \<Rightarrow> (int_field rp ''row'', int_field rp ''col'')
      | Inl e \<Rightarrow> (None, None))"

definition tile_index :: "call \<Rightarrow> int option" where
  "tile_index c = int_field (tile_record c) ''raster_index''"

definition matcher_positions :: "call \<Rightarrow> (int option \<times> int option) list" where
  "matcher_positions c =
     (case getitem (tile_record c) ''matcher'' of
        Inr (VList ms) \<Rightarrow> map (\<lambda>m. (int_field m ''row'', int_field m ''col'')) ms
      | _ \<Rightarrow> [])"

text \<open>The side of the grid, 0 when the division that computes it raises.\<close>

definition grid_side :: "args \<Rightarrow> int" where
  "grid_side a = (case tiles_per_side a of Inr n \<Rightarrow> n | Inl e \<Rightarrow> 0)"


text \<open>
  The positions of a tile's right, below and diagonal neighbours, and the reading of
  the spec under which every matcher record of a tile names one of them.
\<close>

definition neighbour_positions :: "int \<Rightarrow> int \<Rightarrow> (int option \<times> int option) list" where
  "neighbour_positions r c =
     [(Some r, Some (c + 1)), (Some (r + 1), Some c), (Some (r + 1), Some (c + 1))]"

definition matchers_name_neighbours :: "call \<Rightarrow> bool" where
  "matchers_name_neighbours c =
     (case tile_position c of
        (Some r, Some col) \<Rightarrow>
          length (matcher_positions c) = 4 \<and>
          list_all (\<lambda>q. q \<in> set (neighbour_positions r col)) (matcher_positions c)
      | _ \<Rightarrow> False)"

text \<open>
  What the \<open>k\<close>-th \<^verbatim>\<open>add_tile\<close> call of an acquisition looks like on a grid of side \<open>n\<close>:
  it is made on the acquisition's returned id, the record carries the same id, the
  raster position is \<open>(k div n, k mod n)\<close>, the raster index is \<open>k + 1\<close>, and the matcher
  records are those of the tile's own position and of the three positions to its
  right, below it and diagonally below.
\<close>

fun tile_call_ok :: "int \<Rightarrow> val \<Rightarrow> int \<Rightarrow> call \<Rightarrow> bool" where
  "tile_call_ok n acquisition k (AcquisitionAddTile aid d) =
     (getitem acquisition ''acquisition_id'' = Inr aid
      \<and> getitem d ''acquisition_id'' = Inr aid
      \<and> tile_position (AcquisitionAddTile aid d) = (Some (k div n), Some (k mod n))
      \<and> tile_index (AcquisitionAddTile aid d) = Some (k + 1)
      \<and> matcher_positions (AcquisitionAddTile aid d) =
          [(Some (k div n), Some (k mod n)), (Some (k div n), Some (k mod n + 1)),
           (Some (k div n + 1), Some (k mod n)), (Some (k div n + 1), Some (k mod n + 1))])"
| "tile_call_ok n acquisition k c = False"

text \<open>The value a program returns from a state, when it returns one.\<close>

definition result :: "'a prog \<Rightarrow> state \<Rightarrow> 'a" where
  "result m s = projr (fst (m s))"

text \<open>
  What the code does: the four matcher records of a tile carry the tile's own position
  and the positions to its right, below it and diagonally below, in this order.
\<close>

definition matchers_of_tile :: "call \<Rightarrow> bool" where
  "matchers_of_tile c =
     (case tile_position c of
        (Some r, Some col) \<Rightarrow>
          matcher_positions c =
            [(Some r, Some col), (Some r, Some (col + 1)),
             (Some (r + 1), Some col), (Some (r + 1), Some (col + 1))]
      | _ \<Rightarrow> False)"

subsection \<open>Errors\<close>



subsection \<open>Imaging sessions\<close>

text \<open>
  Read off a list of calls, in call order: the records returned for the imaging
  sessions created; the (session id, ROI id) pairs of the \<^verbatim>\<open>add_rois\<close> calls; the
  (\<^verbatim>\<open>imaging_session_id\<close>, \<^verbatim>\<open>roi_id\<close>) fields of the acquisitions created.
\<close>

fun session_reply :: "call \<times> reply \<Rightarrow> val list" where
  "session_reply (ImagingSessionCreate d, Inr v) = [v]"
| "session_reply x = []"

definition session_replies :: "(call \<times> reply) list \<Rightarrow> val list" where
  "session_replies tr = concat (map session_reply tr)"

fun attachment :: "call \<Rightarrow> (reply \<times> reply) list" where
  "attachment (ImagingSessionAddRois sid rid) = [(Inr sid, Inr rid)]"
| "attachment c = []"

definition attachments :: "(call \<times> reply) list \<Rightarrow> (reply \<times> reply) list" where
  "attachments tr = concat (map (\<lambda>x. attachment (fst x)) tr)"

fun acquisition_of :: "call \<Rightarrow> (reply \<times> reply) list" where
  "acquisition_of (AcquisitionCreate d) = [(getitem d ''imaging_session_id'', getitem d ''roi_id'')]"
| "acquisition_of c = []"

definition acquisitions :: "(call \<times> reply) list \<Rightarrow> (reply \<times> reply) list" where
  "acquisitions tr = concat (map (\<lambda>x. acquisition_of (fst x)) tr)"

text \<open>The \<open>i\<close>-th batch of \<open>b\<close> items of a list.\<close>

definition batch :: "nat \<Rightarrow> nat \<Rightarrow> 'a list \<Rightarrow> 'a list" where
  "batch b i xs = take b (drop (i * b) xs)"

section \<open>Reasoning about runs\<close>

lemma pbind_apply:
  "pbind m f s = (case m s of (Inl e, s') \<Rightarrow> (Inl e, s') | (Inr x, s') \<Rightarrow> f x s')"
  by (simp add: pbind_def)

lemma pret_apply: "pret x s = (Inr x, s)"
  by (simp add: pret_def)

lemma praise_apply: "praise e s = (Inl e, s)"
  by (simp add: praise_def)

lemma lift_apply: "lift r s = (r, s)"
  by (simp add: lift_def pret_def praise_def split: sum.splits)

lemma pbind_Inr_iff:
  "pbind m f s = (Inr y, s') \<longleftrightarrow> (\<exists>x s1. m s = (Inr x, s1) \<and> f x s1 = (Inr y, s'))"
  by (auto simp: pbind_def split: prod.splits sum.splits)

lemma pbind_Inl_iff:
  "pbind m f s = (Inl e, s') \<longleftrightarrow>
     (m s = (Inl e, s') \<or> (\<exists>x s1. m s = (Inr x, s1) \<and> f x s1 = (Inl e, s')))"
  by (auto simp: pbind_def split: prod.splits sum.splits)

text \<open>The value of \<^verbatim>\<open>random.random()\<close> at draw \<open>n\<close>.\<close>

lemma random_apply:
  "random_random E s = (Inr (unit_of (bits E (draws s))), s\<lparr>draws := Suc (draws s)\<rparr>)"
  by (simp add: pbind_def random_random_def next_draw_def pret_def)

lemma uniform_apply:
  "uniform E a b s = (Inr (a + (b - a) * unit_of (bits E (draws s))), s\<lparr>draws := Suc (draws s)\<rparr>)"
  by (simp add: pbind_def uniform_def random_apply pret_def)

lemma randint_apply:
  "a \<le> b \<Longrightarrow> randint E a b s
     = (Inr (a + int (bits E (draws s) mod nat (b - a + 1))), s\<lparr>draws := Suc (draws s)\<rparr>)"
  by (simp add: pbind_def randint_def next_draw_def pret_def)

lemma gauss_apply:
  "gauss E mu sg s = (Inr (gauss_src E (draws s) mu sg), s\<lparr>draws := Suc (draws s)\<rparr>)"
  by (simp add: gauss_def)

lemma print_apply: "py_print l s = (Inr (), s\<lparr>out := out s @ [l]\<rparr>)"
  by (simp add: py_print_def)

lemma now_apply: "datetime_now E s = (Inr (now E (ticks s)), s\<lparr>ticks := Suc (ticks s)\<rparr>)"
  by (simp add: datetime_now_def)

lemma call_apply:
  "call_client E c s = (client E (calls s) c, s\<lparr>calls := calls s @ [(c, client E (calls s) c)]\<rparr>)"
  by (simp add: call_client_def Let_def)

lemmas run_simps = pbind_apply pret_apply praise_apply lift_apply uniform_apply random_apply
  randint_apply gauss_apply print_apply now_apply call_apply

section \<open>Loops\<close>

text \<open>
  An invariant rule for a loop: \<open>P\<close> holds of the items already processed, the local
  variables and the state after each completed turn; \<open>Q\<close> is what a turn that raises
  leaves behind.
\<close>

lemma foldM_rule_gen:
  assumes "foldM f zs acc s = (r, s')" "P ys acc s" "xs = ys @ zs"
    and step_ok: "\<And>ys x zs a t a' t'. xs = ys @ x # zs \<Longrightarrow> P ys a t \<Longrightarrow> f a x t = (Inr a', t')
                   \<Longrightarrow> P (ys @ [x]) a' t'"
    and step_err: "\<And>ys x zs a t e t'. xs = ys @ x # zs \<Longrightarrow> P ys a t \<Longrightarrow> f a x t = (Inl e, t')
                   \<Longrightarrow> Q e t'"
  shows "case r of Inr b \<Rightarrow> P xs b s' | Inl e \<Rightarrow> Q e s'"
  using assms(1-3)
proof (induction zs arbitrary: ys acc s)
  case Nil
  then show ?case by (auto simp: pret_apply)
next
  case (Cons z zs)
  show ?case
  proof (cases "f acc z s")
    case (Pair r1 s1)
    show ?thesis
    proof (cases r1)
      case (Inl e)
      with Pair Cons.prems(1) have "r = Inl e" "s' = s1" by (simp_all add: pbind_apply)
      moreover have "Q e s1" using step_err [OF Cons.prems(3) Cons.prems(2)] Pair Inl by simp
      ultimately show ?thesis by simp
    next
      case (Inr a')
      with Pair Cons.prems(1) have run': "foldM f zs a' s1 = (r, s')" by (simp add: pbind_apply)
      have "P (ys @ [z]) a' s1" using step_ok [OF Cons.prems(3) Cons.prems(2)] Pair Inr by simp
      moreover have "xs = (ys @ [z]) @ zs" using Cons.prems(3) by simp
      ultimately show ?thesis using Cons.IH [OF run'] by blast
    qed
  qed
qed

lemma foldM_rule:
  assumes "foldM f xs acc s = (r, s')" "P [] acc s"
    and "\<And>ys x zs a t a' t'. xs = ys @ x # zs \<Longrightarrow> P ys a t \<Longrightarrow> f a x t = (Inr a', t')
                   \<Longrightarrow> P (ys @ [x]) a' t'"
    and "\<And>ys x zs a t e t'. xs = ys @ x # zs \<Longrightarrow> P ys a t \<Longrightarrow> f a x t = (Inl e, t')
                   \<Longrightarrow> Q e t'"
  shows "case r of Inr b \<Rightarrow> P xs b s' | Inl e \<Rightarrow> Q e s'"
  using foldM_rule_gen [where ys = "[]" and P = P and Q = Q, OF assms(1) assms(2)] assms(3,4)
  by simp

lemma py_range_split:
  assumes "py_range n = ys @ x # zs"
  shows "x = int (length ys)" "int (length ys) < n" "ys = py_range (int (length ys))"
proof -
  have len: "length ys < nat n"
    using arg_cong [OF assms, of length] by (simp add: py_range_def)
  have "py_range n ! length ys = x" using assms by simp
  then show "x = int (length ys)" using len by (simp add: py_range_def)
  show "int (length ys) < n" using len by simp
  have "take (length ys) (py_range n) = ys" using assms by simp
  then show "ys = py_range (int (length ys))"
    using len by (auto simp: py_range_def take_map take_upt)
qed

section \<open>The focus score\<close>

lemma num_le_clamp:
  "num_le (NInt 0) (py_max (NInt 0) (py_min (NInt 24) (NFloat g))) \<and>
   num_le (py_max (NInt 0) (py_min (NInt 24) (NFloat g))) (NInt 24)"
  by (cases g) (auto simp: py_max_def py_min_def num_le_def)

text \<open>
  Claim C4. Whatever the base score and the variation, and whatever the Gaussian sampler
  returns (a finite float, an infinity or NaN), \<^verbatim>\<open>generate_focus_score\<close> returns a number
  \<open>x\<close> with \<open>0 \<le> x \<le> 24\<close> in Python's comparison, and never raises.
\<close>

theorem focus_score_in_range:
  "\<exists>x. fst (generate_focus_score E base_score variation s) = Inr x
      \<and> num_le (NInt 0) x \<and> num_le x (NInt 24)"
  unfolding generate_focus_score_def
  by (simp add: run_simps num_le_clamp)

section \<open>Tiles of one acquisition\<close>

lemma getitem_not_client_error: "getitem v k = Inl e \<Longrightarrow> \<not> client_error e"
  by (cases v) (auto split: option.splits)

text \<open>
  \<^verbatim>\<open>generate_matcher_data\<close> makes 23 draws, never raises, and returns a record whose
  \<^verbatim>\<open>row\<close> and \<^verbatim>\<open>col\<close> are its arguments.
\<close>

lemma generate_matcher_data_total:
  "\<exists>v. generate_matcher_data E r c s = (Inr v, s\<lparr>draws := draws s + 23\<rparr>)
       \<and> int_field v ''row'' = Some r \<and> int_field v ''col'' = Some c"
  unfolding generate_matcher_data_def uniform_val_def
  by (simp add: run_simps numeral_eq_Suc int_field_def)

lemma generate_matcher_data_apply:
  "generate_matcher_data E r c s
     = (Inr (result (generate_matcher_data E r c) s), s\<lparr>draws := draws s + 23\<rparr>)"
  using generate_matcher_data_total [of E r c s] by (auto simp: result_def)

lemma generate_matcher_data_row_col:
  "int_field (result (generate_matcher_data E r c) s) ''row'' = Some r"
  "int_field (result (generate_matcher_data E r c) s) ''col'' = Some c"
  using generate_matcher_data_total [of E r c s] by (auto simp: result_def)

lemma tile_data_ok:
  assumes "n \<noteq> 0" "getitem acq ''acquisition_id'' = Inr aid"
    "int_field m1 ''row'' = Some (k div n)" "int_field m1 ''col'' = Some (k mod n)"
    "int_field m2 ''row'' = Some (k div n)" "int_field m2 ''col'' = Some (k mod n + 1)"
    "int_field m3 ''row'' = Some (k div n + 1)" "int_field m3 ''col'' = Some (k mod n)"
    "int_field m4 ''row'' = Some (k div n + 1)" "int_field m4 ''col'' = Some (k mod n + 1)"
  shows "tile_call_ok n acq k (AcquisitionAddTile aid
           (tile_data E aid mid k (k div n) (k mod n) sp fs st sd [m1, m2, m3, m4]))"
  using assms
  by (cases st)
     (simp add: tile_data_def tile_position_def tile_index_def matcher_positions_def int_field_def)

text \<open>
  One turn of the loop of \<^verbatim>\<open>create_tiles\<close>: either it raises before calling the client
  (never a client error), or it makes exactly one call, the \<open>k\<close>-th tile's.
\<close>

lemma create_tiles_step_run:
  assumes "create_tiles_step E acq mid a bfs n tiles k s = (r, s')"
  shows "(\<exists>e. r = Inl e \<and> \<not> client_error e \<and> calls s' = calls s) \<or>
         (\<exists>c rep. calls s' = calls s @ [(c, rep)] \<and> n \<noteq> 0 \<and> tile_call_ok n acq k c
            \<and> (case r of Inr v \<Rightarrow> \<exists>t. rep = Inr t \<and> v = tiles @ [t]
                        | Inl e \<Rightarrow> rep = Inl e \<or> (replied rep \<and> \<not> client_error e)))"
  using assms unfolding create_tiles_step_def generate_focus_score_def calculate_stage_position_def
  by (auto simp: run_simps generate_matcher_data_apply generate_matcher_data_row_col
        py_floordiv_def py_mod_def tile_data_ok Let_def getitem_not_client_error
      simp del: tile_call_ok.simps
      split: sum.splits if_splits)

text \<open>
  The calls of \<^verbatim>\<open>create_tiles\<close>, whatever its outcome: the \<open>k\<close>-th is the \<open>k\<close>-th tile's, and
  a run that returns has made one call per cell of the grid.
\<close>

lemma create_tiles_run:
  assumes "create_tiles E acq mid a s = (r, s')"
  shows "\<exists>d. calls s' = calls s @ d
          \<and> (\<forall>k<length d. tile_call_ok (grid_side a) acq (int k) (fst (d ! k)))
          \<and> int (length d) \<le> grid_side a * grid_side a
          \<and> (case r of
                Inr tiles \<Rightarrow> tiles_per_side a = Inr (grid_side a)
                   \<and> int (length d) = grid_side a * grid_side a
                   \<and> all_replied d \<and> length tiles = length d
              | Inl e \<Rightarrow> True)"
proof (cases "tiles_per_side a")
  case (Inl e)
  with assms have "calls s' = calls s" "r = Inl e"
    by (auto simp: create_tiles_def run_simps)
  then show ?thesis by (intro exI [of _ "[]"]) simp
next
  case (Inr n)
  define s1 where "s1 = s\<lparr>draws := Suc (draws s)\<rparr>"
  define bfs where "bfs = 41 / 2 + (43 / 2 - 41 / 2) * unit_of (bits E (draws s))"
  have gs: "grid_side a = n" using Inr by (simp add: grid_side_def)
  have run: "foldM (create_tiles_step E acq mid a bfs n) (py_range (n * n)) [] s1 = (r, s')"
    using assms Inr by (simp add: create_tiles_def run_simps Let_def s1_def bfs_def)
  define P where "P = (\<lambda>(ys :: int list) (tiles :: val list) (t :: state).
     \<exists>d. calls t = calls s @ d \<and> length d = length ys \<and> length tiles = length ys \<and> all_replied d
        \<and> (\<forall>k<length d. tile_call_ok n acq (int k) (fst (d ! k))))"
  define Q where "Q = (\<lambda>(e :: exn) (t :: state).
     \<exists>d. calls t = calls s @ d \<and> int (length d) \<le> n * n
        \<and> (\<forall>k<length d. tile_call_ok n acq (int k) (fst (d ! k))))"
  have init: "P [] [] s1" by (simp add: P_def s1_def all_replied_def)
  have ok: "P (ys @ [x]) a' t'"
    if "py_range (n * n) = ys @ x # zs" "P ys tl t" "create_tiles_step E acq mid a bfs n tl x t = (Inr a', t')"
    for ys x zs tl t a' t'
  proof -
    from that(2) obtain d where d: "calls t = calls s @ d" "length d = length ys"
      "length tl = length ys" "all_replied d" "\<forall>k<length d. tile_call_ok n acq (int k) (fst (d ! k))"
      by (auto simp: P_def)
    have x: "x = int (length ys)" using py_range_split(1) [OF that(1)] .
    from create_tiles_step_run [OF that(3)] obtain c tt where
      c: "calls t' = calls t @ [(c, Inr tt)]" "tile_call_ok n acq x c" "a' = tl @ [tt]"
      by auto
    show ?thesis unfolding P_def
      using d c x
      by (intro exI [of _ "d @ [(c, Inr tt)]"]) (auto simp: all_replied_def nth_append less_Suc_eq)
  qed
  have err: "Q e t'"
    if "py_range (n * n) = ys @ x # zs" "P ys tl t" "create_tiles_step E acq mid a bfs n tl x t = (Inl e, t')"
    for ys x zs tl t e t'
  proof -
    from that(2) obtain d where d: "calls t = calls s @ d" "length d = length ys"
      "\<forall>k<length d. tile_call_ok n acq (int k) (fst (d ! k))"
      by (auto simp: P_def)
    have x: "x = int (length ys)" "int (length ys) < n * n" using py_range_split [OF that(1)] by auto
    from create_tiles_step_run [OF that(3)] consider
      "calls t' = calls t" | c rep where "calls t' = calls t @ [(c, rep)]" "tile_call_ok n acq x c"
      by auto
    then show ?thesis
    proof cases
      case 1
      then show ?thesis unfolding Q_def using d x by (intro exI [of _ d]) auto
    next
      case 2
      then show ?thesis unfolding Q_def using d x
        by (intro exI [of _ "d @ [(c, rep)]"]) (auto simp: nth_append less_Suc_eq)
    qed
  qed
  have res: "case r of Inr b \<Rightarrow> P (py_range (n * n)) b s' | Inl e \<Rightarrow> Q e s'"
    by (rule foldM_rule [where P = P and Q = Q, OF run init]) (erule (2) ok, erule (2) err)
  show ?thesis
  proof (cases r)
    case (Inl e)
    with res show ?thesis by (auto simp: Q_def gs)
  next
    case (Inr tiles)
    with res obtain d where "calls s' = calls s @ d" "length d = length (py_range (n * n))"
      "length tiles = length (py_range (n * n))" "all_replied d"
      "\<forall>k<length d. tile_call_ok n acq (int k) (fst (d ! k))"
      by (auto simp: P_def)
    then show ?thesis using Inr \<open>tiles_per_side a = Inr n\<close>
      by (intro exI [of _ d]) (auto simp: gs py_range_def)
  qed
qed

text \<open>A loop whose every turn returns, returns.\<close>

lemma foldM_succeeds:
  assumes "\<And>acc x s. x \<in> set xs \<Longrightarrow> \<exists>v s'. f acc x s = (Inr v, s')"
  shows "\<exists>v s'. foldM f xs acc s = (Inr v, s')"
  using assms
proof (induction xs arbitrary: acc s)
  case Nil
  then show ?case by (simp add: pret_apply)
next
  case (Cons x xs)
  from Cons.prems [of x acc s] obtain v s1 where "f acc x s = (Inr v, s1)" by auto
  moreover from Cons.IH [of v s1] Cons.prems obtain w s2 where "foldM f xs v s1 = (Inr w, s2)"
    by auto
  ultimately show ?case by (simp add: pbind_apply)
qed

text \<open>Against the echoing client, \<^verbatim>\<open>create_tiles\<close> returns.\<close>

lemma create_tiles_step_echo:
  assumes "client E = echo_client" "n \<noteq> 0" "getitem acq ''acquisition_id'' = Inr aid"
  shows "\<exists>v s'. create_tiles_step E acq mid a bfs n tiles k s = (Inr v, s')"
  using assms unfolding create_tiles_step_def generate_focus_score_def calculate_stage_position_def
  by (simp add: run_simps generate_matcher_data_apply py_floordiv_def py_mod_def Let_def
        echo_client_def tile_data_def)

lemma create_tiles_echo:
  assumes "client E = echo_client" "tiles_per_side a = Inr n" "getitem acq ''acquisition_id'' = Inr aid"
  shows "\<exists>tiles s'. create_tiles E acq mid a s = (Inr tiles, s')"
proof (cases "n = 0")
  case True
  with assms show ?thesis by (simp add: create_tiles_def run_simps py_range_def)
next
  case False
  show ?thesis
    using assms(2) foldM_succeeds [of "py_range (n * n)" "create_tiles_step E acq mid a _ n"]
      create_tiles_step_echo [OF assms(1) False assms(3)]
    by (simp add: create_tiles_def run_simps Let_def)
qed






section \<open>The raster of an acquisition\<close>


lemma tile_call_ok_fields:
  assumes "tile_call_ok n acq k c"
  shows "tile_position c = (Some (k div n), Some (k mod n))" "tile_index c = Some (k + 1)"
    "matcher_positions c =
          [(Some (k div n), Some (k mod n)), (Some (k div n), Some (k mod n + 1)),
           (Some (k div n + 1), Some (k mod n)), (Some (k div n + 1), Some (k mod n + 1))]"
  using assms by (cases c; simp)+


lemma tps_small: "tiles_per_side small_args = Inr 2"
  by (simp add: tiles_per_side_def stage_ratio_def py_truediv_def py_int_of_float_def small_args_def)


section \<open>The matcher records of a tile\<close>

lemma tile_call_ok_matchers: "tile_call_ok n acq k c \<Longrightarrow> matchers_of_tile c \<and> length (matcher_positions c) = 4"
  by (simp add: matchers_of_tile_def tile_call_ok_fields)

text \<open>
  Claim C10, as amended. Every tile record sent by \<^verbatim>\<open>create_tiles\<close> contains exactly 4 matcher
  records, and their (row, col) fields are, in order, the tile's own position
  \<open>(row, col)\<close> and the positions of its right \<open>(row, col + 1)\<close>, below \<open>(row + 1, col)\<close> and
  diagonal \<open>(row + 1, col + 1)\<close> neighbours.
\<close>

theorem create_tiles_matchers:
  assumes "create_tiles E acquisition media_id a s = (r, s')"
  shows "calls s' = calls s @ new_calls s s'
    \<and> list_all (\<lambda>x. length (matcher_positions (fst x)) = 4 \<and> matchers_of_tile (fst x))
         (new_calls s s')"
proof -
  from create_tiles_run [OF assms] obtain d where d: "calls s' = calls s @ d"
    "\<forall>k<length d. tile_call_ok (grid_side a) acquisition (int k) (fst (d ! k))"
    by auto
  have nc: "new_calls s s' = d" using d(1) by (simp add: new_calls_def)
  have "list_all (\<lambda>x. length (matcher_positions (fst x)) = 4 \<and> matchers_of_tile (fst x)) d"
    unfolding list_all_length using d(2) tile_call_ok_matchers by blast
  then show ?thesis using d(1) nc by simp
qed

text \<open>A run on the grid of side 2, against the echoing client.\<close>

lemma small_run:
  obtains tiles s' d where
    "create_tiles (test_env echo_client (\<lambda>n. n)) (VDict [(''acquisition_id'', VStr ''A'')])
        ''m'' small_args init_state = (Inr tiles, s')"
    "new_calls init_state s' = d" "length d = 4"
    "tile_call_ok 2 (VDict [(''acquisition_id'', VStr ''A'')]) 0 (fst (d ! 0))"
proof -
  obtain tiles s' where run: "create_tiles (test_env echo_client (\<lambda>n. n))
      (VDict [(''acquisition_id'', VStr ''A'')]) ''m'' small_args init_state = (Inr tiles, s')"
    using create_tiles_echo [of "test_env echo_client (\<lambda>n. n)" small_args 2
       "VDict [(''acquisition_id'', VStr ''A'')]" "VStr ''A''" "''m''" init_state] tps_small
    by (auto simp: test_env_def)
  have gs: "grid_side small_args = 2" using tps_small by (simp add: grid_side_def)
  from create_tiles_run [OF run] gs obtain d where d: "calls s' = calls init_state @ d"
     "\<forall>k<length d. tile_call_ok 2 (VDict [(''acquisition_id'', VStr ''A'')]) (int k) (fst (d ! k))"
     "int (length d) = 4"
    by auto
  have "new_calls init_state s' = d" using d(1) by (simp add: new_calls_def)
  moreover have "length d = 4" using d(3) by simp
  moreover have "tile_call_ok 2 (VDict [(''acquisition_id'', VStr ''A'')]) 0 (fst (d ! 0))"
    using d(2) \<open>length d = 4\<close> by (metis of_nat_0 zero_less_numeral)
  ultimately show ?thesis using run that by blast
qed

theorem create_tiles_matchers_witness:
  "\<exists>r s'. create_tiles (test_env echo_client (\<lambda>n. n)) (VDict [(''acquisition_id'', VStr ''A'')])
        ''m'' small_args init_state = (r, s')
     \<and> length (new_calls init_state s') = 4
     \<and> list_all (\<lambda>x. length (matcher_positions (fst x)) = 4 \<and> matchers_of_tile (fst x))
         (new_calls init_state s')"
proof -
  from small_run obtain tiles s' d where run:
    "create_tiles (test_env echo_client (\<lambda>n. n)) (VDict [(''acquisition_id'', VStr ''A'')])
        ''m'' small_args init_state = (Inr tiles, s')"
    and d: "new_calls init_state s' = d" "length d = 4" by blast
  from create_tiles_matchers [OF run] d run show ?thesis by auto
qed

text \<open>
  Claim C10 as stated fails: in that run, the first matcher record of the first tile
  carries the tile's own position (0, 0), which is none of its three neighbours'.
\<close>

theorem matchers_name_neighbours_counterexample:
  "\<not> list_all (\<lambda>x. matchers_name_neighbours (fst x))
       (new_calls init_state
          (snd (create_tiles (test_env echo_client (\<lambda>n. n)) (VDict [(''acquisition_id'', VStr ''A'')])
                  ''m'' small_args init_state)))"
proof -
  from small_run obtain tiles s' d where run:
    "create_tiles (test_env echo_client (\<lambda>n. n)) (VDict [(''acquisition_id'', VStr ''A'')])
        ''m'' small_args init_state = (Inr tiles, s')"
    and d: "new_calls init_state s' = d" "length d = 4"
       "tile_call_ok 2 (VDict [(''acquisition_id'', VStr ''A'')]) 0 (fst (d ! 0))" by blast
  have "\<not> matchers_name_neighbours (fst (d ! 0))"
    using tile_call_ok_fields [OF d(3)]
    by (simp add: matchers_name_neighbours_def neighbour_positions_def)
  moreover have "d ! 0 \<in> set d" using d(2) by simp
  ultimately have "\<not> list_all (\<lambda>x. matchers_name_neighbours (fst x)) d"
    by (auto simp: list_all_iff)
  then show ?thesis using run d(1) by simp
qed

section \<open>One call per entity\<close>

text \<open>
  What each \<^verbatim>\<open>create_*\<close> function does to the list of calls, whatever its outcome: it
  raises before calling the client, or it makes exactly one call, whose parent fields
  are read from the records it was given; when it returns, the call was answered and
  the record returned is the answer.
\<close>

lemma replicateM_numeral: "replicateM (numeral k) m = replicateM (Suc (pred_numeral k)) m"
  by (simp add: numeral_eq_Suc)

lemma getitem_eq_commute [simp]:
  "(Inl e = getitem v k) \<longleftrightarrow> (getitem v k = Inl e)"
  "(Inr x = getitem v k) \<longleftrightarrow> (getitem v k = Inr x)"
  by auto

lemma create_specimen_run:
  assumes "create_specimen E s = (r, s')"
  shows "\<exists>p rep. calls s' = calls s @ [(SpecimenCreate p, rep)]
           \<and> (\<forall>v. r = Inr v \<longrightarrow> rep = Inr v \<and> replied (getitem v ''specimen_id''))"
  using assms unfolding create_specimen_def
  by (auto simp: run_simps split: sum.splits)

lemma create_blocks_step_run:
  assumes "create_blocks_step E specimen blocks i s = (r, s')"
  shows "(calls s' = calls s \<and> (\<exists>e. r = Inl e)) \<or>
         (\<exists>p rep sid. calls s' = calls s @ [(BlockCreate p, rep)]
            \<and> getitem specimen ''specimen_id'' = Inr sid \<and> getitem p ''specimen_id'' = Inr sid
            \<and> (\<forall>v. r = Inr v \<longrightarrow> (\<exists>b. rep = Inr b \<and> v = blocks @ [b] \<and> replied (getitem b ''block_id''))))"
  using assms unfolding create_blocks_step_def
  by (auto simp: run_simps block_data_def split: sum.splits)

lemma create_cutting_session_run:
  assumes "create_cutting_session E block n s = (r, s')"
  shows "(calls s' = calls s \<and> (\<exists>e. r = Inl e)) \<or>
         (\<exists>p rep bid. calls s' = calls s @ [(CuttingSessionCreate p, rep)]
            \<and> getitem block ''block_id'' = Inr bid \<and> getitem p ''block_id'' = Inr bid
            \<and> (\<forall>v. r = Inr v \<longrightarrow> (\<exists>cs. rep = Inr cs
                    \<and> v = (cs, ''TAPE'' @ py_str E bid @ str_int n)
                    \<and> replied (getitem cs ''cutting_session_id'')
                    \<and> draws s' = Suc (draws s))))"
  using assms unfolding create_cutting_session_def
  by (auto simp: run_simps cutting_session_data_def Let_def split: sum.splits)

lemma create_section_run:
  assumes "create_section E cs k media_id s = (r, s')"
  shows "(calls s' = calls s \<and> (\<exists>e. r = Inl e)) \<or>
         (\<exists>p rep cid. calls s' = calls s @ [(SectionCreate p, rep)]
            \<and> getitem cs ''cutting_session_id'' = Inr cid \<and> getitem p ''cutting_session_id'' = Inr cid
            \<and> (\<forall>v. r = Inr v \<longrightarrow> rep = Inr v \<and> replied (getitem v ''section_id'')
                    \<and> draws s' = draws s))"
  using assms unfolding create_section_def
  by (auto simp: run_simps section_data_def split: sum.splits)

lemma create_roi_run:
  assumes "create_roi E section roi_id jittered block specimen s = (r, s')"
  shows "(calls s' = calls s \<and> (\<exists>e. r = Inl e)) \<or>
         (\<exists>p rep soid boid. calls s' = calls s @ [(RoiCreate p, rep)]
            \<and> getitem specimen ''_id'' = Inr soid \<and> getitem p ''specimen_id'' = Inr soid
            \<and> getitem block ''_id'' = Inr boid \<and> getitem p ''block_id'' = Inr boid
            \<and> getitem p ''aperture_centroid'' = getitem jittered ''aperture_centroid''
            \<and> getitem p ''aperture_width_height'' = getitem jittered ''aperture_width_height''
            \<and> (\<forall>v. r = Inr v \<longrightarrow> rep = Inr v \<and> replied (getitem v ''roi_id'')
                    \<and> draws s' = draws s))"
  using assms unfolding create_roi_def
  by (auto simp: run_simps roi_data_def split: sum.splits)

lemma random_digits_total:
  "\<exists>ds. replicateM n (random_digit E) s = (Inr ds, s\<lparr>draws := draws s + n\<rparr>)"
proof (induction n arbitrary: s)
  case 0
  then show ?case by (simp add: run_simps)
next
  case (Suc n)
  from Suc [of "s\<lparr>draws := Suc (draws s)\<rparr>"] show ?case
    by (auto simp: run_simps random_digit_def)
qed

lemma random_digits_apply:
  "replicateM n (random_digit E) s
     = (Inr (result (replicateM n (random_digit E)) s), s\<lparr>draws := draws s + n\<rparr>)"
  using random_digits_total [of n E s] by (auto simp: result_def)

lemma create_imaging_session_run:
  assumes "create_imaging_session E specimen block media_id n s = (r, s')"
  shows "(calls s' = calls s \<and> (\<exists>e. r = Inl e)) \<or>
         (\<exists>p rep sid bid. calls s' = calls s @ [(ImagingSessionCreate p, rep)]
            \<and> getitem specimen ''specimen_id'' = Inr sid \<and> getitem p ''specimen_id'' = Inr sid
            \<and> getitem block ''block_id'' = Inr bid \<and> getitem p ''block_id'' = Inr bid
            \<and> (\<forall>v. r = Inr v \<longrightarrow> rep = Inr v \<and> replied (getitem v ''session_id'')))"
  using assms unfolding create_imaging_session_def
  by (auto simp: run_simps imaging_session_data_def Let_def random_digits_apply split: sum.splits)

lemma create_acquisition_run:
  assumes "create_acquisition E ims roi a s = (r, s')"
  shows "(calls s' = calls s \<and> (\<exists>e. r = Inl e)) \<or>
         (\<exists>p rep sid rid. calls s' = calls s @ [(AcquisitionCreate p, rep)]
            \<and> getitem ims ''session_id'' = Inr sid \<and> getitem p ''imaging_session_id'' = Inr sid
            \<and> getitem roi ''roi_id'' = Inr rid \<and> getitem p ''roi_id'' = Inr rid
            \<and> (\<forall>v. r = Inr v \<longrightarrow> rep = Inr v \<and> replied (getitem v ''acquisition_id'')))"
  using assms unfolding create_acquisition_def
  by (auto simp: run_simps acquisition_data_def split: sum.splits)

section \<open>Errors stop the run\<close>











































end
